theory Spec2Isabelle
  imports Main "HOL-Library.Word"
begin

section \<open>Output streams\<close>

text \<open>
  The library writes to a \<^verbatim>\<open>std::ostream&\<close>. A \<^verbatim>\<open>RenderContext\<close> keeps that
  reference, and every context derived from it writes to the same stream, so streams are
  kept in a store: a stream reference is an address, and the store gives for each address
  the characters written to that stream so far.
\<close>

type_synonym ostream = nat

type_synonym streams = "ostream \<Rightarrow> string"

definition no_output :: streams where
  "no_output = (\<lambda>r. [])"

text \<open>\<^verbatim>\<open>out.put(c)\<close>\<close>

definition put :: "ostream \<Rightarrow> char \<Rightarrow> streams \<Rightarrow> streams" where
  "put r c s = s(r := s r @ [c])"

text \<open>\<^verbatim>\<open>out << t\<close> for a string or string view \<open>t\<close>\<close>

definition write_string :: "ostream \<Rightarrow> string \<Rightarrow> streams \<Rightarrow> streams" where
  "write_string r t s = s(r := s r @ t)"

text \<open>\<^verbatim>\<open>out << std::endl\<close>: a newline (the flush leaves the characters as they are)\<close>

definition endl :: "ostream \<Rightarrow> streams \<Rightarrow> streams" where
  "endl r s = put r (CHR 0x0A) s"


section \<open>RenderContext\<close>

text \<open>
  \<^verbatim>\<open>int\<close> is the 32-bit two's complement integer: a \<open>32 word\<close> read through
  \<open>sint\<close> and compared with \<open><s\<close>. Addition on words wraps around, which is what the
  usual targets compute where C++ leaves signed overflow undefined.
\<close>

record RenderContext =
  out :: ostream
  indent_step :: "32 word"
  indent :: "32 word"

text \<open>\<^verbatim>\<open>RenderContext(std::ostream& out)\<close>: the member initialisers give 0 and 0.\<close>

definition RenderContext1 :: "ostream \<Rightarrow> RenderContext" where
  "RenderContext1 r = \<lparr>out = r, indent_step = 0, indent = 0\<rparr>"

text \<open>\<^verbatim>\<open>RenderContext(std::ostream& out, int indent_step, int indent = 0)\<close>\<close>

definition RenderContext3 :: "ostream \<Rightarrow> 32 word \<Rightarrow> 32 word \<Rightarrow> RenderContext" where
  "RenderContext3 r st ind = \<lparr>out = r, indent_step = st, indent = ind\<rparr>"

definition Indented :: "RenderContext \<Rightarrow> RenderContext" where
  "Indented c = \<lparr>out = out c, indent_step = indent_step c, indent = indent c + indent_step c\<rparr>"

lemma sint_succ_below:
  fixes i k :: "32 word"
  assumes "i <s k"
  shows "sint (i + 1) = sint i + 1"
proof -
  have k: "sint k < 2 ^ 31" using sint_lt [of k] by simp
  have i: "- (2 ^ 31) \<le> sint i" using sint_ge [of i] by simp
  from assms have "sint i < sint k" by (simp add: word_sless_alt)
  with k i have r: "- (2 ^ 31) \<le> sint i + 1 \<and> sint i + 1 < 2 ^ 31" by arith
  have "sint (i + 1) = signed_take_bit 31 (sint i + 1)"
    by (simp add: sint_word_ariths)
  also have "\<dots> = sint i + 1"
    using r by (simp add: signed_take_bit_int_eq_self)
  finally show ?thesis .
qed

text \<open>
  The loop of \<^verbatim>\<open>RenderIndent\<close>,
  \<^verbatim>\<open>for (int i = 0; i < indent; ++i) out.put(' ');\<close>
  as a recursion on the counter. The counter is below \<open>indent\<close> when it is incremented,
  so the increment never overflows and the distance to \<open>indent\<close> decreases.
\<close>

function RenderIndent_loop :: "RenderContext \<Rightarrow> 32 word \<Rightarrow> streams \<Rightarrow> streams" where
  "RenderIndent_loop c i s =
     (if i <s indent c then RenderIndent_loop c (i + 1) (put (out c) (CHR '' '') s) else s)"
  by pat_completeness auto
termination
  by (relation "measure (\<lambda>(c, i, s). nat (sint (indent c) - sint i))")
     (auto simp: sint_succ_below word_sless_alt)

declare RenderIndent_loop.simps [simp del]

definition RenderIndent :: "RenderContext \<Rightarrow> streams \<Rightarrow> streams" where
  "RenderIndent c s = RenderIndent_loop c 0 s"


section \<open>Number formatting\<close>

text \<open>
  Coordinates and radii are \<^verbatim>\<open>double\<close>. The library stores them and hands them to the
  stream's \<^verbatim>\<open>operator<<\<close>; it computes nothing with them. The type of these values is
  therefore a parameter \<open>'r\<close> of the model, and the text the stream produces for one of them
  is a parameter \<open>fmt\<close> of every rendering function.

  \<open>dec_nat\<close> is the stream's text for an unsigned integer. \<open>dec_int\<close> is its text for a
  \<^verbatim>\<open>double\<close> that holds a whole number of magnitude below \<open>10^6\<close> (the default format
  prints six significant digits and drops the decimal point); the concrete examples below take
  whole numbers for \<open>'r\<close> and \<open>dec_int\<close> for \<open>fmt\<close>.
\<close>

fun dec_nat :: "nat \<Rightarrow> string" where
  "dec_nat n = (if n < 10 then [''0123456789'' ! n]
                else dec_nat (n div 10) @ [''0123456789'' ! (n mod 10)])"

declare dec_nat.simps [simp del]

definition dec_int :: "int \<Rightarrow> string" where
  "dec_int i = (if i < 0 then CHR ''-'' # dec_nat (nat (- i)) else dec_nat (nat i))"


section \<open>Shapes\<close>

record 'r Point =
  x :: 'r
  y :: 'r

text \<open>The default member initialisers of \<^verbatim>\<open>Point\<close>: \<^verbatim>\<open>x = 0\<close>, \<^verbatim>\<open>y = 0\<close>.\<close>

definition Point_default :: "('r::zero) Point" where
  "Point_default = \<lparr>x = 0, y = 0\<rparr>"

subsection \<open>Circle\<close>

text \<open>
  The members of the classes end in an underscore (\<^verbatim>\<open>center_\<close>, \<^verbatim>\<open>radius_\<close>,
  \<^verbatim>\<open>all_point_\<close>, \<^verbatim>\<open>all_obj_\<close>), which a name cannot do here: the records drop it.
\<close>

record 'r Circle =
  center :: "'r Point"
  radius :: 'r

text \<open>\<^verbatim>\<open>Point center_ = {0.0, 0.0}; double radius_ = 1.0;\<close>\<close>

definition Circle_default :: "('r::{zero,one}) Circle" where
  "Circle_default = \<lparr>center = \<lparr>x = 0, y = 0\<rparr>, radius = 1\<rparr>"

definition Circle_SetCenter :: "'r Point \<Rightarrow> 'r Circle \<Rightarrow> 'r Circle" where
  "Circle_SetCenter c this = this\<lparr>center := c\<rparr>"

definition Circle_SetRadius :: "'r \<Rightarrow> 'r Circle \<Rightarrow> 'r Circle" where
  "Circle_SetRadius r this = this\<lparr>radius := r\<rparr>"

text \<open>
  \<^verbatim>\<open>Circle::RenderObject\<close>, statement by statement. The header and the source file
  define it with the same body.
\<close>

definition Circle_RenderObject ::
  "('r \<Rightarrow> string) \<Rightarrow> 'r Circle \<Rightarrow> RenderContext \<Rightarrow> streams \<Rightarrow> streams" where
  "Circle_RenderObject fmt this context s =
     (let r = out context;
          s = write_string r ''<circle cx=\"'' s;
          s = write_string r (fmt (x (center this))) s;
          s = write_string r ''\" cy=\"'' s;
          s = write_string r (fmt (y (center this))) s;
          s = write_string r ''\" '' s;
          s = write_string r ''r=\"'' s;
          s = write_string r (fmt (radius this)) s;
          s = write_string r ''\" '' s;
          s = write_string r ''/>'' s
      in s)"

subsection \<open>Polyline\<close>

record 'r Polyline =
  all_point :: "'r Point list"

definition Polyline_default :: "'r Polyline" where
  "Polyline_default = \<lparr>all_point = []\<rparr>"

definition AddPoint :: "'r Point \<Rightarrow> 'r Polyline \<Rightarrow> 'r Polyline" where
  "AddPoint point this = this\<lparr>all_point := all_point this @ [point]\<rparr>"

text \<open>The body of the loop over \<^verbatim>\<open>all_point_\<close> in \<^verbatim>\<open>Polyline::RenderObject\<close>.\<close>

definition Polyline_point :: "('r \<Rightarrow> string) \<Rightarrow> ostream \<Rightarrow> 'r Point \<Rightarrow> streams \<Rightarrow> streams" where
  "Polyline_point fmt r point s =
     (let s = write_string r (fmt (x point)) s;
          s = write_string r '','' s;
          s = write_string r (fmt (y point)) s;
          s = write_string r '' '' s
      in s)"

definition Polyline_RenderObject ::
  "('r \<Rightarrow> string) \<Rightarrow> 'r Polyline \<Rightarrow> RenderContext \<Rightarrow> streams \<Rightarrow> streams" where
  "Polyline_RenderObject fmt this context s =
     (let r = out context;
          s = write_string r ''polyline points=\"'' s;
          s = fold (Polyline_point fmt r) (all_point this) s;
          s = write_string r ''/>'' s
      in s)"

subsection \<open>Text\<close>

text \<open>
  \<^verbatim>\<open>class Text\<close> declares six setters and the source file defines them, each assigning
  its argument to a member: \<^verbatim>\<open>pos_\<close>, \<^verbatim>\<open>offset_\<close>, \<^verbatim>\<open>font_size\<close>,
  \<^verbatim>\<open>font_family_\<close>, \<^verbatim>\<open>font_weight_\<close>, \<^verbatim>\<open>data_\<close>. The class declares none of
  these members, gives them no initial value, and has no \<^verbatim>\<open>RenderObject\<close>.

  Modelled from the spec: the members of \<^verbatim>\<open>Text\<close>, which the class does not declare.
  The spec's data model gives position and offset as points, the font size as a non-negative
  integer (the setter takes \<^verbatim>\<open>uint32_t\<close>), font family and font weight as optional
  strings, and the data as a string.
\<close>

record 'r Text =
  pos :: "'r Point"
  offset :: "'r Point"
  font_size :: "32 word"
  font_family :: "string option"
  font_weight :: "string option"
  data :: string

text \<open>
  Modelled from the spec: the initial values of the members of \<^verbatim>\<open>Text\<close>, which the class
  does not give. The spec: position (0, 0), offset (0, 0), font size 1, font family and font
  weight absent, data empty.
\<close>

definition Text_default :: "('r::zero) Text" where
  "Text_default = \<lparr>pos = \<lparr>x = 0, y = 0\<rparr>, offset = \<lparr>x = 0, y = 0\<rparr>, font_size = 1,
     font_family = None, font_weight = None, data = []\<rparr>"

text \<open>The setters of the source file.\<close>

definition Text_SetPosition :: "'r Point \<Rightarrow> 'r Text \<Rightarrow> 'r Text" where
  "Text_SetPosition p this = this\<lparr>pos := p\<rparr>"

definition Text_SetOffset :: "'r Point \<Rightarrow> 'r Text \<Rightarrow> 'r Text" where
  "Text_SetOffset p this = this\<lparr>offset := p\<rparr>"

definition Text_SetFontSize :: "32 word \<Rightarrow> 'r Text \<Rightarrow> 'r Text" where
  "Text_SetFontSize sz this = this\<lparr>font_size := sz\<rparr>"

definition Text_SetFontFamily :: "string \<Rightarrow> 'r Text \<Rightarrow> 'r Text" where
  "Text_SetFontFamily f this = this\<lparr>font_family := Some f\<rparr>"

definition Text_SetFontWeight :: "string \<Rightarrow> 'r Text \<Rightarrow> 'r Text" where
  "Text_SetFontWeight w this = this\<lparr>font_weight := Some w\<rparr>"

definition Text_SetData :: "string \<Rightarrow> 'r Text \<Rightarrow> 'r Text" where
  "Text_SetData d this = this\<lparr>data := d\<rparr>"

text \<open>
  Modelled from the spec: the escaping of text content and of string attribute values, which
  the source does not have. The spec: the substitutions \<^verbatim>\<open>&\<close> to \<^verbatim>\<open>&amp;\<close>,
  \<^verbatim>\<open><\<close> to \<^verbatim>\<open>&lt;\<close>, \<^verbatim>\<open>>\<close> to \<^verbatim>\<open>&gt;\<close>, the double quote to
  \<^verbatim>\<open>&quot;\<close> and the single quote to \<^verbatim>\<open>&apos;\<close>, applied in this order, each
  over the whole string.
\<close>

definition replace_all :: "char \<Rightarrow> string \<Rightarrow> string \<Rightarrow> string" where
  "replace_all c t s = concat (map (\<lambda>d. if d = c then t else [d]) s)"

definition escape :: "string \<Rightarrow> string" where
  "escape s =
     replace_all (CHR 0x27) ''&apos;''
       (replace_all (CHR 0x22) ''&quot;''
         (replace_all (CHR ''>'') ''&gt;''
           (replace_all (CHR ''<'') ''&lt;''
             (replace_all (CHR ''&'') ''&amp;'' s))))"

text \<open>
  Modelled from the spec: \<^verbatim>\<open>Text::RenderObject\<close>, which the source does not have. The
  spec's element form is
  \<^verbatim>\<open><text x="{px}" y="{py}" dx="{ox}" dy="{oy}" font-size="{sz}"[ font-family="{fam}"][ font-weight="{wt}"]>{escaped-data}</text>\<close>
  with a bracketed attribute written only when its member is set, and the font size written
  as an integer.
\<close>

definition Text_RenderObject ::
  "('r \<Rightarrow> string) \<Rightarrow> 'r Text \<Rightarrow> RenderContext \<Rightarrow> streams \<Rightarrow> streams" where
  "Text_RenderObject fmt this context s =
     (let r = out context;
          s = write_string r ''<text x=\"'' s;
          s = write_string r (fmt (x (pos this))) s;
          s = write_string r ''\" y=\"'' s;
          s = write_string r (fmt (y (pos this))) s;
          s = write_string r ''\" dx=\"'' s;
          s = write_string r (fmt (x (offset this))) s;
          s = write_string r ''\" dy=\"'' s;
          s = write_string r (fmt (y (offset this))) s;
          s = write_string r ''\" font-size=\"'' s;
          s = write_string r (dec_nat (unat (font_size this))) s;
          s = write_string r ''\"'' s;
          s = (case font_family this of None \<Rightarrow> s
               | Some f \<Rightarrow> write_string r ('' font-family=\"'' @ escape f @ ''\"'') s);
          s = (case font_weight this of None \<Rightarrow> s
               | Some w \<Rightarrow> write_string r ('' font-weight=\"'' @ escape w @ ''\"'') s);
          s = write_string r ''>'' s;
          s = write_string r (escape (data this)) s;
          s = write_string r ''</text>'' s
      in s)"

subsection \<open>Object\<close>

text \<open>
  \<^verbatim>\<open>Object\<close> is the abstract base class of the three shapes; a value of it is one of
  them. \<^verbatim>\<open>RenderObject\<close> is the virtual call.
\<close>

datatype 'r Object =
  CircleObject "'r Circle"
| PolylineObject "'r Polyline"
| TextObject "'r Text"

fun RenderObject :: "('r \<Rightarrow> string) \<Rightarrow> 'r Object \<Rightarrow> RenderContext \<Rightarrow> streams \<Rightarrow> streams" where
  "RenderObject fmt (CircleObject c) context s = Circle_RenderObject fmt c context s"
| "RenderObject fmt (PolylineObject p) context s = Polyline_RenderObject fmt p context s"
| "RenderObject fmt (TextObject t) context s = Text_RenderObject fmt t context s"

text \<open>\<^verbatim>\<open>Object::Render\<close>\<close>

definition Object_Render ::
  "('r \<Rightarrow> string) \<Rightarrow> 'r Object \<Rightarrow> RenderContext \<Rightarrow> streams \<Rightarrow> streams" where
  "Object_Render fmt this context s =
     (let s = RenderIndent context s;
          s = RenderObject fmt this context s;
          s = endl (out context) s
      in s)"

text \<open>What an object writes as its element: its \<^verbatim>\<open>RenderObject\<close> on a fresh stream.\<close>

definition emission :: "('r \<Rightarrow> string) \<Rightarrow> 'r Object \<Rightarrow> string" where
  "emission fmt obj = RenderObject fmt obj (RenderContext1 0) no_output 0"


section \<open>Document\<close>

text \<open>
  The class declares one container, \<^verbatim>\<open>all_obj_\<close>, and \<^verbatim>\<open>Render\<close> iterates it.
  \<^verbatim>\<open>Add\<close> appends to \<^verbatim>\<open>objects_\<close>, a name the class does not declare; the record
  carries it as a container of its own, so that \<^verbatim>\<open>Add\<close> has the effect its body names.
  \<^verbatim>\<open>AddPtr\<close> is declared and has no definition.
\<close>

record 'r Document =
  all_obj :: "'r Object list"
  objects :: "'r Object list"

definition Document_default :: "'r Document" where
  "Document_default = \<lparr>all_obj = [], objects = []\<rparr>"

definition Add :: "'r Object \<Rightarrow> 'r Document \<Rightarrow> 'r Document" where
  "Add obj this = this\<lparr>objects := objects this @ [obj]\<rparr>"

text \<open>
  \<^verbatim>\<open>Document::Render(std::ostream& out)\<close>. The call \<^verbatim>\<open>i->Render(out)\<close> passes the
  stream where a \<^verbatim>\<open>RenderContext\<close> is expected, which converts it with the one-argument
  constructor.
\<close>

definition Document_Render :: "('r \<Rightarrow> string) \<Rightarrow> 'r Document \<Rightarrow> ostream \<Rightarrow> streams \<Rightarrow> streams" where
  "Document_Render fmt this r s =
     fold (\<lambda>i. Object_Render fmt i (RenderContext1 r)) (all_obj this) s"


section \<open>Auxiliary definitions for the properties\<close>

text \<open>
  A chain of setter calls on a fresh \<^verbatim>\<open>Text\<close>, as in
  \<^verbatim>\<open>Text().SetPosition(p).SetData(d)\<close>: one constructor per setter, applied from left to
  right to the default value.
\<close>

datatype 'r Text_call =
  SetPosition "'r Point"
| SetOffset "'r Point"
| SetFontSize "32 word"
| SetFontFamily string
| SetFontWeight string
| SetData string

fun Text_apply :: "'r Text_call \<Rightarrow> 'r Text \<Rightarrow> 'r Text" where
  "Text_apply (SetPosition p) t = Text_SetPosition p t"
| "Text_apply (SetOffset p) t = Text_SetOffset p t"
| "Text_apply (SetFontSize n) t = Text_SetFontSize n t"
| "Text_apply (SetFontFamily f) t = Text_SetFontFamily f t"
| "Text_apply (SetFontWeight w) t = Text_SetFontWeight w t"
| "Text_apply (SetData d) t = Text_SetData d t"

definition Text_chain :: "('r::zero) Text_call list \<Rightarrow> 'r Text" where
  "Text_chain calls = fold Text_apply calls Text_default"

text \<open>The replacement of one character: what escaping is to do with each character.\<close>

definition escape_char :: "char \<Rightarrow> string" where
  "escape_char c =
     (if c = CHR ''&'' then ''&amp;''
      else if c = CHR ''<'' then ''&lt;''
      else if c = CHR ''>'' then ''&gt;''
      else if c = CHR 0x22 then ''&quot;''
      else if c = CHR 0x27 then ''&apos;''
      else [c])"

text \<open>
  A string with no raw special character: it has none of \<^verbatim>\<open><\<close>, \<^verbatim>\<open>>\<close>, the double
  and the single quote, and each \<^verbatim>\<open>&\<close> in it starts one of the five entities.
\<close>

definition entity_follows :: "string \<Rightarrow> bool" where
  "entity_follows cs =
     (take 4 cs = ''amp;'' \<or> take 3 cs = ''lt;'' \<or> take 3 cs = ''gt;''
      \<or> take 5 cs = ''quot;'' \<or> take 5 cs = ''apos;'')"

fun escaped :: "string \<Rightarrow> bool" where
  "escaped [] = True"
| "escaped (c # cs) =
     (if c = CHR ''&'' then entity_follows cs \<and> escaped cs
      else c \<noteq> CHR ''<'' \<and> c \<noteq> CHR ''>'' \<and> c \<noteq> CHR 0x22 \<and> c \<noteq> CHR 0x27 \<and> escaped cs)"

section \<open>Properties of RenderContext\<close>

lemma RenderIndent_loop_eq:
  "RenderIndent_loop c i s =
     s(out c := s (out c) @ replicate (nat (sint (indent c) - sint i)) (CHR '' ''))"
proof (induction c i s rule: RenderIndent_loop.induct)
  case (1 c i s)
  show ?case
  proof (cases "i <s indent c")
    case True
    then have lt: "sint i < sint (indent c)" by (simp add: word_sless_alt)
    have step: "sint (i + 1) = sint i + 1" using True by (rule sint_succ_below)
    have n: "nat (sint (indent c) - sint i) = Suc (nat (sint (indent c) - (sint i + 1)))"
      using lt by simp
    have "RenderIndent_loop c i s = RenderIndent_loop c (i + 1) (put (out c) (CHR '' '') s)"
      using True by (simp add: RenderIndent_loop.simps [of c i s])
    also have "\<dots> = (put (out c) (CHR '' '') s)
        (out c := (put (out c) (CHR '' '') s) (out c)
           @ replicate (nat (sint (indent c) - sint (i + 1))) (CHR '' ''))"
      using "1.IH" [OF True] .
    also have "\<dots> = s(out c := s (out c) @ replicate (nat (sint (indent c) - sint i)) (CHR '' ''))"
      by (simp add: put_def step n)
    finally show ?thesis .
  next
    case False
    then have "\<not> sint i < sint (indent c)" by (simp add: word_sless_alt)
    then have "nat (sint (indent c) - sint i) = 0" by simp
    moreover have "RenderIndent_loop c i s = s"
      using False by (simp add: RenderIndent_loop.simps [of c i s])
    ultimately show ?thesis by simp
  qed
qed

text \<open>
  C10. \<^verbatim>\<open>RenderIndent\<close> is defined for every context, whatever the sign of \<open>indent\<close>:
  it appends \<open>max indent 0\<close> spaces to the context's stream and leaves every other stream
  as it was. With a negative \<open>indent\<close> it writes nothing.
\<close>

theorem RenderIndent_total:
  "RenderIndent c s =
     s(out c := s (out c) @ replicate (nat (max (sint (indent c)) 0)) (CHR '' ''))"
proof -
  have "nat (max (sint (indent c)) 0) = nat (sint (indent c) - sint (0 :: 32 word))"
    by (simp add: max_def)
  then show ?thesis
    by (simp only: RenderIndent_def RenderIndent_loop_eq)
qed

theorem RenderIndent_total_witness:
  "RenderIndent (RenderContext3 0 2 (- 4)) no_output = no_output
   \<and> RenderIndent (RenderContext3 0 2 4) no_output 0 = ''    ''"
  using RenderIndent_total [of "RenderContext3 0 2 (- 4)" no_output]
    RenderIndent_total [of "RenderContext3 0 2 4" no_output]
  by (simp add: RenderContext3_def no_output_def fun_eq_iff eval_nat_numeral)

text \<open>
  C9, as the claim states it, fails where \<open>indent + indent_step\<close> leaves the range of
  \<^verbatim>\<open>int\<close>: with \<open>indent_step = 3\<close> and \<open>indent = 2147483646\<close> (a multiple of 3) the
  sum is not representable, and the wrapped result is neither the sum nor a multiple of 3.
\<close>

theorem Indented_overflow_counterexample:
  "0 <s indent_step (RenderContext3 0 3 2147483646)
   \<and> sint (indent_step (RenderContext3 0 3 2147483646))
       dvd sint (indent (RenderContext3 0 3 2147483646))
   \<and> sint (indent (Indented (RenderContext3 0 3 2147483646)))
       \<noteq> sint (indent (RenderContext3 0 3 2147483646))
         + sint (indent_step (RenderContext3 0 3 2147483646))
   \<and> \<not> sint (indent_step (RenderContext3 0 3 2147483646))
         dvd sint (indent (Indented (RenderContext3 0 3 2147483646)))"
  by (simp add: RenderContext3_def Indented_def word_sless_alt)

text \<open>
  C9, amended: for every context with \<open>indent_step > 0\<close> whose \<open>indent\<close> is a multiple of
  \<open>indent_step\<close> and whose \<open>indent + indent_step\<close> is at most \<open>2147483647\<close>,
  \<^verbatim>\<open>Indented\<close> returns a context with the same stream and \<open>indent_step\<close>, with
  \<open>indent\<close> increased by \<open>indent_step\<close>, and the new \<open>indent\<close> is again a multiple of
  \<open>indent_step\<close>. \<^verbatim>\<open>Indented\<close> is a function of the context's value, so the context
  it is called on is the same afterwards.
\<close>

theorem Indented_step:
  assumes "0 <s indent_step c"
    and "sint (indent_step c) dvd sint (indent c)"
    and "sint (indent c) + sint (indent_step c) < 2 ^ 31"
  shows "out (Indented c) = out c
    \<and> indent_step (Indented c) = indent_step c
    \<and> sint (indent (Indented c)) = sint (indent c) + sint (indent_step c)
    \<and> sint (indent_step (Indented c)) dvd sint (indent (Indented c))"
proof -
  have lo: "- (2 ^ 31) \<le> sint (indent c)" using sint_ge [of "indent c"] by simp
  from assms(1) have pos: "0 < sint (indent_step c)" by (simp add: word_sless_alt)
  have "sint (indent c + indent_step c)
      = signed_take_bit 31 (sint (indent c) + sint (indent_step c))"
    by (simp add: sint_word_ariths)
  also have "\<dots> = sint (indent c) + sint (indent_step c)"
    using lo pos assms(3) by (simp add: signed_take_bit_int_eq_self)
  finally have sum: "sint (indent c + indent_step c) = sint (indent c) + sint (indent_step c)" .
  have "sint (indent_step c) dvd sint (indent c) + sint (indent_step c)"
    using assms(2) by simp
  with sum show ?thesis by (simp add: Indented_def)
qed

theorem Indented_step_witness:
  "0 <s indent_step (RenderContext3 0 2 4)
   \<and> sint (indent_step (RenderContext3 0 2 4)) dvd sint (indent (RenderContext3 0 2 4))
   \<and> sint (indent (RenderContext3 0 2 4)) + sint (indent_step (RenderContext3 0 2 4)) < 2 ^ 31
   \<and> out (Indented (RenderContext3 0 2 4)) = 0
   \<and> indent_step (Indented (RenderContext3 0 2 4)) = 2
   \<and> sint (indent (Indented (RenderContext3 0 2 4))) = 6
   \<and> sint (indent_step (Indented (RenderContext3 0 2 4)))
        dvd sint (indent (Indented (RenderContext3 0 2 4)))"
proof -
  have a: "0 <s indent_step (RenderContext3 0 2 4)"
    by (simp add: RenderContext3_def word_sless_alt)
  have b: "sint (indent_step (RenderContext3 0 2 4)) dvd sint (indent (RenderContext3 0 2 4))"
    by (simp add: RenderContext3_def)
  have c: "sint (indent (RenderContext3 0 2 4)) + sint (indent_step (RenderContext3 0 2 4)) < 2 ^ 31"
    by (simp add: RenderContext3_def)
  show ?thesis
    using a b c Indented_step [OF a b c] by (simp add: RenderContext3_def)
qed


section \<open>What the rendering functions write\<close>

lemma write_string_twice:
  "write_string r b (write_string r a s) = write_string r (a @ b) s"
  by (simp add: write_string_def)

lemma Circle_RenderObject_eq:
  "Circle_RenderObject fmt c context s =
     write_string (out context)
       (''<circle cx=\"'' @ fmt (x (center c)) @ ''\" cy=\"'' @ fmt (y (center c))
          @ ''\" r=\"'' @ fmt (radius c) @ ''\" />'') s"
  by (simp only: Circle_RenderObject_def Let_def write_string_twice append_assoc) simp

lemma Polyline_point_eq:
  "Polyline_point fmt r p s = write_string r (fmt (x p) @ '','' @ fmt (y p) @ '' '') s"
  by (simp add: Polyline_point_def Let_def write_string_def)

lemma Polyline_points_fold:
  "fold (Polyline_point fmt r) ps s =
     write_string r (concat (map (\<lambda>p. fmt (x p) @ '','' @ fmt (y p) @ '' '') ps)) s"
proof (induction ps arbitrary: s)
  case Nil
  show ?case by (simp add: write_string_def)
next
  case (Cons p ps)
  have "fold (Polyline_point fmt r) (p # ps) s
      = fold (Polyline_point fmt r) ps (Polyline_point fmt r p s)"
    by simp
  also have "\<dots> = write_string r (concat (map (\<lambda>p. fmt (x p) @ '','' @ fmt (y p) @ '' '') ps))
      (write_string r (fmt (x p) @ '','' @ fmt (y p) @ '' '') s)"
    by (simp only: Cons.IH Polyline_point_eq)
  also have "\<dots> = write_string r
      (concat (map (\<lambda>p. fmt (x p) @ '','' @ fmt (y p) @ '' '') (p # ps))) s"
    by (simp add: write_string_twice)
  finally show ?case .
qed

lemma Polyline_RenderObject_eq:
  "Polyline_RenderObject fmt p context s =
     write_string (out context)
       (''polyline points=\"''
          @ concat (map (\<lambda>p. fmt (x p) @ '','' @ fmt (y p) @ '' '') (all_point p))
          @ ''/>'') s"
  by (simp add: Polyline_RenderObject_def Let_def Polyline_points_fold write_string_twice)

lemma Text_RenderObject_eq:
  "Text_RenderObject fmt t context s =
     write_string (out context)
       (''<text x=\"'' @ fmt (x (pos t)) @ ''\" y=\"'' @ fmt (y (pos t))
          @ ''\" dx=\"'' @ fmt (x (offset t)) @ ''\" dy=\"'' @ fmt (y (offset t))
          @ ''\" font-size=\"'' @ dec_nat (unat (font_size t)) @ ''\"''
          @ (case font_family t of None \<Rightarrow> [] | Some f \<Rightarrow> '' font-family=\"'' @ escape f @ ''\"'')
          @ (case font_weight t of None \<Rightarrow> [] | Some w \<Rightarrow> '' font-weight=\"'' @ escape w @ ''\"'')
          @ ''>'' @ escape (data t) @ ''</text>'') s"
proof (cases "font_family t"; cases "font_weight t")
qed (simp_all only: Text_RenderObject_def Let_def option.case write_string_twice append_assoc
    append_Nil append_Nil2)

lemma write_string_fresh: "write_string 0 t no_output 0 = t"
  by (simp add: write_string_def no_output_def)

lemma emission_Circle:
  "emission fmt (CircleObject c) =
     ''<circle cx=\"'' @ fmt (x (center c)) @ ''\" cy=\"'' @ fmt (y (center c))
       @ ''\" r=\"'' @ fmt (radius c) @ ''\" />''"
  by (simp only: emission_def RenderObject.simps Circle_RenderObject_eq RenderContext1_def
      RenderContext.simps write_string_fresh)

lemma emission_Polyline:
  "emission fmt (PolylineObject p) =
     ''polyline points=\"''
       @ concat (map (\<lambda>p. fmt (x p) @ '','' @ fmt (y p) @ '' '') (all_point p))
       @ ''/>''"
  by (simp only: emission_def RenderObject.simps Polyline_RenderObject_eq RenderContext1_def
      RenderContext.simps write_string_fresh)

lemma emission_Text:
  "emission fmt (TextObject t) =
     ''<text x=\"'' @ fmt (x (pos t)) @ ''\" y=\"'' @ fmt (y (pos t))
       @ ''\" dx=\"'' @ fmt (x (offset t)) @ ''\" dy=\"'' @ fmt (y (offset t))
       @ ''\" font-size=\"'' @ dec_nat (unat (font_size t)) @ ''\"''
       @ (case font_family t of None \<Rightarrow> [] | Some f \<Rightarrow> '' font-family=\"'' @ escape f @ ''\"'')
       @ (case font_weight t of None \<Rightarrow> [] | Some w \<Rightarrow> '' font-weight=\"'' @ escape w @ ''\"'')
       @ ''>'' @ escape (data t) @ ''</text>''"
  by (simp only: emission_def RenderObject.simps Text_RenderObject_eq RenderContext1_def
      RenderContext.simps write_string_fresh)

lemma RenderObject_emission:
  "RenderObject fmt obj context s = write_string (out context) (emission fmt obj) s"
proof (cases obj)
  case (CircleObject c)
  then show ?thesis by (simp only: emission_Circle RenderObject.simps Circle_RenderObject_eq)
next
  case (PolylineObject p)
  then show ?thesis by (simp only: emission_Polyline RenderObject.simps Polyline_RenderObject_eq)
next
  case (TextObject t)
  then show ?thesis by (simp only: emission_Text RenderObject.simps Text_RenderObject_eq)
qed

lemma RenderIndent_eq:
  "RenderIndent c s =
     write_string (out c) (replicate (nat (max (sint (indent c)) 0)) (CHR '' '')) s"
proof -
  have "nat (max (sint (indent c)) 0) = nat (sint (indent c) - sint (0 :: 32 word))"
    by (simp add: max_def)
  then show ?thesis
    by (simp only: RenderIndent_def RenderIndent_loop_eq write_string_def)
qed

lemma Object_Render_eq:
  "Object_Render fmt obj context s =
     write_string (out context)
       (replicate (nat (max (sint (indent context)) 0)) (CHR '' '')
          @ emission fmt obj @ [CHR 0x0A]) s"
  by (simp add: Object_Render_def Let_def RenderIndent_eq RenderObject_emission endl_def
      put_def write_string_def)

lemma Object_Render_top:
  "Object_Render fmt obj (RenderContext1 r) s = write_string r (emission fmt obj @ [CHR 0x0A]) s"
  by (simp add: Object_Render_eq) (simp add: RenderContext1_def)

lemma fold_Object_Render:
  "fold (\<lambda>i. Object_Render fmt i (RenderContext1 r)) objs s =
     write_string r (concat (map (\<lambda>i. emission fmt i @ [CHR 0x0A]) objs)) s"
proof (induction objs arbitrary: s)
  case Nil
  show ?case by (simp add: write_string_def)
next
  case (Cons a objs)
  have "fold (\<lambda>i. Object_Render fmt i (RenderContext1 r)) (a # objs) s
      = fold (\<lambda>i. Object_Render fmt i (RenderContext1 r)) objs
          (Object_Render fmt a (RenderContext1 r) s)"
    by simp
  also have "\<dots> = write_string r (concat (map (\<lambda>i. emission fmt i @ [CHR 0x0A]) objs))
      (write_string r (emission fmt a @ [CHR 0x0A]) s)"
    by (simp only: Cons.IH Object_Render_top)
  also have "\<dots> = write_string r
      (concat (map (\<lambda>i. emission fmt i @ [CHR 0x0A]) (a # objs))) s"
    by (simp add: write_string_twice)
  finally show ?case .
qed

lemma Document_Render_eq:
  "Document_Render fmt d r s =
     write_string r (concat (map (\<lambda>i. emission fmt i @ [CHR 0x0A]) (all_obj d))) s"
  by (simp only: Document_Render_def fold_Object_Render)


section \<open>The circle element\<close>

text \<open>
  C5, as the claim states it, fails: the element ends in \<^verbatim>\<open>" />\<close>, with a space between
  the closing quote of \<open>r\<close> and the slash, where the claim has \<^verbatim>\<open>"/>\<close>.
\<close>

theorem Circle_emission_counterexample:
  "emission dec_int
     (CircleObject (Circle_SetRadius 15 (Circle_SetCenter \<lparr>x = 20, y = 30\<rparr> Circle_default)))
   \<noteq> ''<circle cx=\"20\" cy=\"30\" r=\"15\"/>''"
  by (simp add: emission_Circle Circle_SetRadius_def Circle_SetCenter_def Circle_default_def
      dec_int_def dec_nat.simps)

text \<open>
  C5, amended: for every circle with center \<open>(cx, cy)\<close> and radius \<open>r\<close> the element is
  exactly \<^verbatim>\<open><circle cx="{cx}" cy="{cy}" r="{r}" />\<close>, each number as the stream formats
  it, written to the stream of the context and to no other; a circle with center (20, 30)
  and radius 15 yields \<^verbatim>\<open><circle cx="20" cy="30" r="15" />\<close>.
\<close>

theorem Circle_emission:
  "RenderObject fmt (CircleObject c) context s =
     write_string (out context)
       (''<circle cx=\"'' @ fmt (x (center c)) @ ''\" cy=\"'' @ fmt (y (center c))
          @ ''\" r=\"'' @ fmt (radius c) @ ''\" />'') s
   \<and> emission dec_int
       (CircleObject (Circle_SetRadius 15 (Circle_SetCenter \<lparr>x = 20, y = 30\<rparr> Circle_default)))
     = ''<circle cx=\"20\" cy=\"30\" r=\"15\" />''"
  by (simp add: Circle_RenderObject_eq emission_Circle Circle_SetRadius_def
      Circle_SetCenter_def Circle_default_def dec_int_def dec_nat.simps)


section \<open>The polyline element\<close>

text \<open>
  C4. \<^verbatim>\<open>Polyline::RenderObject\<close> starts the element with \<^verbatim>\<open>polyline points="\<close>, with
  no \<^verbatim>\<open><\<close>, and ends it with \<^verbatim>\<open>/>\<close>, with no closing quote. A polyline with no
  points gives \<^verbatim>\<open>polyline points="/>\<close>, and the points (0, 0), (10, 10), (20, 0) give
  \<^verbatim>\<open>polyline points="0,0 10,10 20,0 />\<close>.
\<close>

theorem Polyline_emission_malformed:
  "emission dec_int (PolylineObject Polyline_default) = ''polyline points=\"/>''
   \<and> emission dec_int
       (PolylineObject
         (AddPoint \<lparr>x = 20, y = 0\<rparr>
           (AddPoint \<lparr>x = 10, y = 10\<rparr> (AddPoint \<lparr>x = 0, y = 0\<rparr> Polyline_default))))
     = ''polyline points=\"0,0 10,10 20,0 />''"
  by (simp add: emission_Polyline Polyline_default_def AddPoint_def dec_int_def dec_nat.simps)


section \<open>Rendering a document\<close>

text \<open>
  C1. \<^verbatim>\<open>Document::Render\<close> writes the lines of the objects of \<^verbatim>\<open>all_obj_\<close> and
  nothing else: no prologue, no \<^verbatim>\<open><svg>\<close> line, no \<^verbatim>\<open></svg>\<close> line, and the lines
  are not indented, since the context it passes has \<open>indent = 0\<close>. An empty document renders
  to the empty text, and a document holding the circle with center (20, 30) and radius 15
  renders to the circle's element and a newline.
\<close>

theorem Document_Render_no_root:
  "Document_Render dec_int Document_default 0 no_output 0 = []
   \<and> Document_Render dec_int
       \<lparr>all_obj = [CircleObject
           (Circle_SetRadius 15 (Circle_SetCenter \<lparr>x = 20, y = 30\<rparr> Circle_default))],
        objects = []\<rparr> 0 no_output 0
     = ''<circle cx=\"20\" cy=\"30\" r=\"15\" />'' @ [CHR 0x0A]"
  by (simp add: Document_Render_eq write_string_fresh emission_Circle Document_default_def
      Circle_SetRadius_def Circle_SetCenter_def Circle_default_def dec_int_def dec_nat.simps)

text \<open>
  C2. \<^verbatim>\<open>Add\<close> appends to \<^verbatim>\<open>objects_\<close> and \<^verbatim>\<open>Render\<close> reads \<^verbatim>\<open>all_obj_\<close>:
  a shape that was added is not rendered. \<^verbatim>\<open>Render\<close> writes after an \<^verbatim>\<open>Add\<close> what it
  wrote before it, and after \<^verbatim>\<open>Add(Circle())\<close> on a new document the output is empty.
\<close>

theorem Add_not_rendered:
  "Document_Render fmt (Add obj d) r s = Document_Render fmt d r s
   \<and> Document_Render dec_int (Add (CircleObject Circle_default) Document_default) 0 no_output 0
     = []"
  by (simp add: Document_Render_eq write_string_fresh Add_def Document_default_def)

text \<open>
  C7. What \<^verbatim>\<open>Render\<close> appends to its stream is a function of the document (and of the
  number format) alone: it is the text the document renders to on a fresh stream, whatever
  the stream and whatever was written to it before, and no other stream changes. Two calls
  in a row append the same text twice. \<^verbatim>\<open>Render\<close> is a \<^verbatim>\<open>const\<close> member: the document
  is a value the function reads, the same at both calls.
\<close>

theorem Document_Render_deterministic:
  "Document_Render fmt d r s = write_string r (Document_Render fmt d 0 no_output 0) s
   \<and> Document_Render fmt d r (Document_Render fmt d r s) r
     = s r @ Document_Render fmt d 0 no_output 0 @ Document_Render fmt d 0 no_output 0"
  by (simp add: Document_Render_eq write_string_fresh) (simp add: write_string_def)


section \<open>Calling a setter twice\<close>

text \<open>
  C8, as the claim states it, fails for \<^verbatim>\<open>AddPoint\<close>, which the spec lists as the setter
  of \<^verbatim>\<open>Polyline\<close>: it appends, so calling it with (0, 0) and then with (1, 1) gives a
  polyline of two points, and calling it once with (1, 1) a polyline of one.
\<close>

theorem AddPoint_twice_counterexample:
  "emission dec_int
     (PolylineObject (AddPoint \<lparr>x = 1, y = 1\<rparr> (AddPoint \<lparr>x = 0, y = 0\<rparr> Polyline_default)))
   \<noteq> emission dec_int (PolylineObject (AddPoint \<lparr>x = 1, y = 1\<rparr> Polyline_default))"
  by (simp add: emission_Polyline Polyline_default_def AddPoint_def dec_int_def dec_nat.simps)

text \<open>
  C8, amended: for each setter that assigns a member (\<^verbatim>\<open>SetCenter\<close>, \<^verbatim>\<open>SetRadius\<close>,
  \<^verbatim>\<open>SetPosition\<close>, \<^verbatim>\<open>SetOffset\<close>, \<^verbatim>\<open>SetFontSize\<close>, \<^verbatim>\<open>SetFontFamily\<close>,
  \<^verbatim>\<open>SetFontWeight\<close>, \<^verbatim>\<open>SetData\<close>), every shape and every pair of arguments, calling
  the setter with the first and then with the second gives a shape that renders as the shape
  does after one call with the second.
\<close>

theorem setter_overwrite:
  "emission fmt (CircleObject (Circle_SetCenter p2 (Circle_SetCenter p1 c)))
     = emission fmt (CircleObject (Circle_SetCenter p2 c))
   \<and> emission fmt (CircleObject (Circle_SetRadius r2 (Circle_SetRadius r1 c)))
     = emission fmt (CircleObject (Circle_SetRadius r2 c))
   \<and> emission fmt (TextObject (Text_SetPosition p2 (Text_SetPosition p1 t)))
     = emission fmt (TextObject (Text_SetPosition p2 t))
   \<and> emission fmt (TextObject (Text_SetOffset p2 (Text_SetOffset p1 t)))
     = emission fmt (TextObject (Text_SetOffset p2 t))
   \<and> emission fmt (TextObject (Text_SetFontSize n2 (Text_SetFontSize n1 t)))
     = emission fmt (TextObject (Text_SetFontSize n2 t))
   \<and> emission fmt (TextObject (Text_SetFontFamily f2 (Text_SetFontFamily f1 t)))
     = emission fmt (TextObject (Text_SetFontFamily f2 t))
   \<and> emission fmt (TextObject (Text_SetFontWeight w2 (Text_SetFontWeight w1 t)))
     = emission fmt (TextObject (Text_SetFontWeight w2 t))
   \<and> emission fmt (TextObject (Text_SetData d2 (Text_SetData d1 t)))
     = emission fmt (TextObject (Text_SetData d2 t))"
  by (simp add: Circle_SetCenter_def Circle_SetRadius_def Text_SetPosition_def
      Text_SetOffset_def Text_SetFontSize_def Text_SetFontFamily_def Text_SetFontWeight_def
      Text_SetData_def)

section \<open>The text element and escaping\<close>

lemma replace_all_append:
  "replace_all c t (a @ b) = replace_all c t a @ replace_all c t b"
  by (simp add: replace_all_def)

lemma replace_all_Nil: "replace_all c t [] = []"
  by (simp add: replace_all_def)

lemma replace_all_Cons:
  "replace_all c t (d # s) = (if d = c then t else [d]) @ replace_all c t s"
  by (simp add: replace_all_def)

lemma escape_Nil: "escape [] = []"
  by (simp add: escape_def replace_all_Nil)

lemma escape_one: "escape [d] = escape_char d"
  by (simp add: escape_def escape_char_def replace_all_Cons replace_all_Nil)

lemma escape_append: "escape (a @ b) = escape a @ escape b"
  by (simp only: escape_def replace_all_append)

lemma escape_Cons: "escape (d # s) = escape_char d @ escape s"
  using escape_append [of "[d]" s] by (simp only: escape_one append_Cons append_Nil)

lemma escape_concat: "escape s = concat (map escape_char s)"
  by (induction s) (simp_all add: escape_Nil escape_Cons)

lemma escaped_escape_char: "escaped (escape_char d @ cs) = escaped cs"
  by (simp add: escape_char_def entity_follows_def)

lemma escaped_escape: "escaped (escape s)"
  by (induction s) (simp_all add: escape_Nil escape_Cons escaped_escape_char)

lemma set_escape_char:
  "CHR ''<'' \<notin> set (escape_char d) \<and> CHR ''>'' \<notin> set (escape_char d)
   \<and> CHR 0x22 \<notin> set (escape_char d) \<and> CHR 0x27 \<notin> set (escape_char d)"
  by (simp add: escape_char_def)

lemma set_escape:
  "CHR ''<'' \<notin> set (escape s) \<and> CHR ''>'' \<notin> set (escape s)
   \<and> CHR 0x22 \<notin> set (escape s) \<and> CHR 0x27 \<notin> set (escape s)"
  using set_escape_char by (simp add: escape_concat)

lemma fold_Text_apply_family:
  "(font_family (fold Text_apply calls t) = None)
     = (font_family t = None \<and> (\<forall>f. SetFontFamily f \<notin> set calls))"
proof (induction calls arbitrary: t)
  case Nil
  show ?case by simp
next
  case (Cons a calls)
  show ?case
  proof (cases a)
    case (SetFontFamily f)
    then show ?thesis by (auto simp: Cons.IH Text_SetFontFamily_def)
  qed (simp_all add: Cons.IH Text_SetPosition_def Text_SetOffset_def Text_SetFontSize_def
      Text_SetFontWeight_def Text_SetData_def)
qed

lemma fold_Text_apply_weight:
  "(font_weight (fold Text_apply calls t) = None)
     = (font_weight t = None \<and> (\<forall>w. SetFontWeight w \<notin> set calls))"
proof (induction calls arbitrary: t)
  case Nil
  show ?case by simp
next
  case (Cons a calls)
  show ?case
  proof (cases a)
    case (SetFontWeight w)
    then show ?thesis by (auto simp: Cons.IH Text_SetFontWeight_def)
  qed (simp_all add: Cons.IH Text_SetPosition_def Text_SetOffset_def Text_SetFontSize_def
      Text_SetFontFamily_def Text_SetData_def)
qed

lemma dec_nat_1: "dec_nat (Suc 0) = ''1''"
  by (simp add: dec_nat.simps)

text \<open>
  C3. The element of a \<^verbatim>\<open>Text\<close> is
  \<^verbatim>\<open><text x="{px}" y="{py}" dx="{ox}" dy="{oy}" font-size="{sz}"\<close>, then
  \<^verbatim>\<open> font-family="{fam}"\<close> if the family is set, then \<^verbatim>\<open> font-weight="{wt}"\<close> if the
  weight is set, then \<^verbatim>\<open>>\<close>, the escaped data and \<^verbatim>\<open></text>\<close>, written to the stream
  of the context. In a chain of setter calls on a new \<^verbatim>\<open>Text\<close> the family is set exactly
  when \<^verbatim>\<open>SetFontFamily\<close> is among the calls, and the weight exactly when
  \<^verbatim>\<open>SetFontWeight\<close> is. A new \<^verbatim>\<open>Text\<close> has position (0, 0), offset (0, 0), font
  size 1 and no data, and neither optional attribute.
\<close>

theorem Text_emission:
  "RenderObject fmt (TextObject t) context s =
     write_string (out context)
       (''<text x=\"'' @ fmt (x (pos t)) @ ''\" y=\"'' @ fmt (y (pos t))
          @ ''\" dx=\"'' @ fmt (x (offset t)) @ ''\" dy=\"'' @ fmt (y (offset t))
          @ ''\" font-size=\"'' @ dec_nat (unat (font_size t)) @ ''\"''
          @ (case font_family t of None \<Rightarrow> [] | Some f \<Rightarrow> '' font-family=\"'' @ escape f @ ''\"'')
          @ (case font_weight t of None \<Rightarrow> [] | Some w \<Rightarrow> '' font-weight=\"'' @ escape w @ ''\"'')
          @ ''>'' @ escape (data t) @ ''</text>'') s
   \<and> (font_family (Text_chain calls) \<noteq> None) = (\<exists>f. SetFontFamily f \<in> set calls)
   \<and> (font_weight (Text_chain calls) \<noteq> None) = (\<exists>w. SetFontWeight w \<in> set calls)
   \<and> emission fmt (TextObject Text_default) =
       ''<text x=\"'' @ fmt 0 @ ''\" y=\"'' @ fmt 0 @ ''\" dx=\"'' @ fmt 0 @ ''\" dy=\"'' @ fmt 0
         @ ''\" font-size=\"1\"></text>''"
proof -
  have a: "RenderObject fmt (TextObject t) context s =
     write_string (out context)
       (''<text x=\"'' @ fmt (x (pos t)) @ ''\" y=\"'' @ fmt (y (pos t))
          @ ''\" dx=\"'' @ fmt (x (offset t)) @ ''\" dy=\"'' @ fmt (y (offset t))
          @ ''\" font-size=\"'' @ dec_nat (unat (font_size t)) @ ''\"''
          @ (case font_family t of None \<Rightarrow> [] | Some f \<Rightarrow> '' font-family=\"'' @ escape f @ ''\"'')
          @ (case font_weight t of None \<Rightarrow> [] | Some w \<Rightarrow> '' font-weight=\"'' @ escape w @ ''\"'')
          @ ''>'' @ escape (data t) @ ''</text>'') s"
    by (simp only: RenderObject.simps Text_RenderObject_eq)
  have b: "(font_family (Text_chain calls) \<noteq> None) = (\<exists>f. SetFontFamily f \<in> set calls)"
    using fold_Text_apply_family [of calls Text_default]
    by (simp only: Text_chain_def) (simp add: Text_default_def)
  have c: "(font_weight (Text_chain calls) \<noteq> None) = (\<exists>w. SetFontWeight w \<in> set calls)"
    using fold_Text_apply_weight [of calls Text_default]
    by (simp only: Text_chain_def) (simp add: Text_default_def)
  have d: "emission fmt (TextObject Text_default) =
       ''<text x=\"'' @ fmt 0 @ ''\" y=\"'' @ fmt 0 @ ''\" dx=\"'' @ fmt 0 @ ''\" dy=\"'' @ fmt 0
         @ ''\" font-size=\"1\"></text>''"
    by (simp add: emission_Text Text_default_def escape_Nil dec_nat_1)
  from a b c d show ?thesis by (intro conjI)
qed

theorem Text_emission_witness:
  "RenderObject dec_int
     (TextObject \<lparr>pos = \<lparr>x = 10, y = 20\<rparr>, offset = \<lparr>x = 0, y = 5\<rparr>, font_size = 14,
        font_family = Some ''Verdana'', font_weight = Some ''bold'',
        data = ''Hello, \"world\" & <svg>''\<rparr>)
     (RenderContext1 0) no_output 0
   = ''<text x=\"10\" y=\"20\" dx=\"0\" dy=\"5\" font-size=\"14\" font-family=\"Verdana\" font-weight=\"bold\">Hello, &quot;world&quot; &amp; &lt;svg&gt;</text>''
   \<and> RenderObject dec_int
     (TextObject \<lparr>pos = \<lparr>x = 0, y = 0\<rparr>, offset = \<lparr>x = 0, y = 0\<rparr>, font_size = 12,
        font_family = None, font_weight = None, data = ''hi''\<rparr>)
     (RenderContext1 0) no_output 0
   = ''<text x=\"0\" y=\"0\" dx=\"0\" dy=\"0\" font-size=\"12\">hi</text>''
   \<and> font_family (Text_chain [SetFontSize 12, SetData ''hi''] :: int Text) = None
   \<and> font_weight (Text_chain [SetFontWeight ''bold''] :: int Text) \<noteq> None"
proof -
  have a: "RenderObject dec_int
     (TextObject \<lparr>pos = \<lparr>x = 10, y = 20\<rparr>, offset = \<lparr>x = 0, y = 5\<rparr>, font_size = 14,
        font_family = Some ''Verdana'', font_weight = Some ''bold'',
        data = ''Hello, \"world\" & <svg>''\<rparr>)
     (RenderContext1 0) no_output 0
   = ''<text x=\"10\" y=\"20\" dx=\"0\" dy=\"5\" font-size=\"14\" font-family=\"Verdana\" font-weight=\"bold\">Hello, &quot;world&quot; &amp; &lt;svg&gt;</text>''"
    by (subst Text_emission [THEN conjunct1])
      (simp add: write_string_def no_output_def RenderContext1_def dec_int_def dec_nat.simps
        escape_def replace_all_def)
  have b: "RenderObject dec_int
     (TextObject \<lparr>pos = \<lparr>x = 0, y = 0\<rparr>, offset = \<lparr>x = 0, y = 0\<rparr>, font_size = 12,
        font_family = None, font_weight = None, data = ''hi''\<rparr>)
     (RenderContext1 0) no_output 0
   = ''<text x=\"0\" y=\"0\" dx=\"0\" dy=\"0\" font-size=\"12\">hi</text>''"
    by (subst Text_emission [THEN conjunct1])
      (simp add: write_string_def no_output_def RenderContext1_def dec_int_def dec_nat.simps
        escape_def replace_all_def)
  have c: "font_family (Text_chain [SetFontSize 12, SetData ''hi''] :: int Text) = None"
    using Text_emission [where calls = "[SetFontSize 12, SetData ''hi''] :: int Text_call list"
        and fmt = dec_int]
    by simp
  have d: "font_weight (Text_chain [SetFontWeight ''bold''] :: int Text) \<noteq> None"
    using Text_emission [where calls = "[SetFontWeight ''bold''] :: int Text_call list"
        and fmt = dec_int]
    by simp
  from a b c d show ?thesis by (intro conjI)
qed

text \<open>
  C6. Escaping replaces each character by its replacement and touches nothing else: the five
  passes, applied in the order \<^verbatim>\<open>&\<close>, \<^verbatim>\<open><\<close>, \<^verbatim>\<open>>\<close>, double quote, single quote,
  give the same text as one pass that replaces every character on its own, so no entity is
  escaped a second time. The result has none of \<^verbatim>\<open><\<close>, \<^verbatim>\<open>>\<close>, the double and the
  single quote, and each \<^verbatim>\<open>&\<close> in it starts an entity. The element of a \<^verbatim>\<open>Text\<close> holds
  the escaped text of the data between \<^verbatim>\<open>>\<close> and \<^verbatim>\<open></text>\<close>, and the escaped family
  and weight between the quotes of their attributes.
\<close>

theorem escape_complete:
  "escape v = concat (map escape_char v)
   \<and> CHR ''<'' \<notin> set (escape v) \<and> CHR ''>'' \<notin> set (escape v)
   \<and> CHR 0x22 \<notin> set (escape v) \<and> CHR 0x27 \<notin> set (escape v)
   \<and> escaped (escape v)
   \<and> (\<exists>pre. emission fmt (TextObject (Text_SetData v t)) = pre @ ''>'' @ escape v @ ''</text>'')
   \<and> (\<exists>pre post. emission fmt (TextObject (Text_SetFontFamily v t))
         = pre @ '' font-family=\"'' @ escape v @ ''\"'' @ post)
   \<and> (\<exists>pre post. emission fmt (TextObject (Text_SetFontWeight v t))
         = pre @ '' font-weight=\"'' @ escape v @ ''\"'' @ post)"
proof -
  have d: "\<exists>pre. emission fmt (TextObject (Text_SetData v t)) = pre @ ''>'' @ escape v @ ''</text>''"
  proof -
    have "emission fmt (TextObject (Text_SetData v t)) =
       (''<text x=\"'' @ fmt (x (pos t)) @ ''\" y=\"'' @ fmt (y (pos t))
          @ ''\" dx=\"'' @ fmt (x (offset t)) @ ''\" dy=\"'' @ fmt (y (offset t))
          @ ''\" font-size=\"'' @ dec_nat (unat (font_size t)) @ ''\"''
          @ (case font_family t of None \<Rightarrow> [] | Some f \<Rightarrow> '' font-family=\"'' @ escape f @ ''\"'')
          @ (case font_weight t of None \<Rightarrow> [] | Some w \<Rightarrow> '' font-weight=\"'' @ escape w @ ''\"''))
       @ ''>'' @ escape v @ ''</text>''"
      by (simp add: emission_Text Text_SetData_def)
    then show ?thesis by blast
  qed
  have f: "\<exists>pre post. emission fmt (TextObject (Text_SetFontFamily v t))
         = pre @ '' font-family=\"'' @ escape v @ ''\"'' @ post"
  proof -
    have "emission fmt (TextObject (Text_SetFontFamily v t)) =
       (''<text x=\"'' @ fmt (x (pos t)) @ ''\" y=\"'' @ fmt (y (pos t))
          @ ''\" dx=\"'' @ fmt (x (offset t)) @ ''\" dy=\"'' @ fmt (y (offset t))
          @ ''\" font-size=\"'' @ dec_nat (unat (font_size t)) @ ''\"'')
       @ '' font-family=\"'' @ escape v @ ''\"''
       @ ((case font_weight t of None \<Rightarrow> [] | Some w \<Rightarrow> '' font-weight=\"'' @ escape w @ ''\"'')
          @ ''>'' @ escape (data t) @ ''</text>'')"
      by (simp add: emission_Text Text_SetFontFamily_def)
    then show ?thesis by blast
  qed
  have w: "\<exists>pre post. emission fmt (TextObject (Text_SetFontWeight v t))
         = pre @ '' font-weight=\"'' @ escape v @ ''\"'' @ post"
  proof -
    have "emission fmt (TextObject (Text_SetFontWeight v t)) =
       (''<text x=\"'' @ fmt (x (pos t)) @ ''\" y=\"'' @ fmt (y (pos t))
          @ ''\" dx=\"'' @ fmt (x (offset t)) @ ''\" dy=\"'' @ fmt (y (offset t))
          @ ''\" font-size=\"'' @ dec_nat (unat (font_size t)) @ ''\"''
          @ (case font_family t of None \<Rightarrow> [] | Some f \<Rightarrow> '' font-family=\"'' @ escape f @ ''\"''))
       @ '' font-weight=\"'' @ escape v @ ''\"''
       @ (''>'' @ escape (data t) @ ''</text>'')"
      by (simp add: emission_Text Text_SetFontWeight_def)
    then show ?thesis by blast
  qed
  from escape_concat [of v] set_escape [of v] escaped_escape [of v] d f w
  show ?thesis by (intro conjI) simp_all
qed

theorem escape_complete_witness:
  "escape ''a<b & \"c\" > d'' = ''a&lt;b &amp; &quot;c&quot; &gt; d''
   \<and> escaped (escape ''a<b & \"c\" > d'')
   \<and> escape [CHR 0x27] = ''&apos;''
   \<and> \<not> escaped ''a<b'' \<and> \<not> escaped ''a & b''"
  using escape_complete [of "''a<b & \"c\" > d''" dec_int Text_default]
    escape_complete [of "[CHR 0x27]" dec_int Text_default]
  by (simp add: escape_char_def entity_follows_def)

end
